theory Spec2Isabelle
  imports
    Complex_Main
    "HOL-Library.Char_ord"
    "HOL-Library.List_Lexorder"
    "HOL-Library.Product_Lexorder"
    "HOL-Library.Multiset"
    "HOL-Library.Sublist"
begin

section \<open>Conventions of the embedding\<close>

text \<open>
  The two pipelines of the dashboard, \<^verbatim>\<open>compute_state_risk\<close> (state_risk.py) and
  \<^verbatim>\<open>compute_health_cost_impacts\<close> (health_cost_proj.py), are embedded as functions on
  tables. A data frame is the list of its rows, in row order; a row is a record of its
  columns. The CSV files of the data folder are the arguments of the pipelines.

  \<^item> A float64 column holds real numbers and arithmetic on it is exact. The one exception
    is the scaler (\<open>MinMaxScaler_column\<close> below), which takes the rounding of its array
    operations as a parameter, so that it can be read in exact arithmetic (\<open>id\<close>) and in
    IEEE double precision (\<open>binary64\<close>).
  \<^item> A cell that pandas can leave null after a left join, or that numpy can fill with
    NaN or an infinity, is a \<open>real option\<close>: \<open>None\<close> is the null or non-finite cell,
    and every operation with such an operand gives one again.
  \<^item> The cells of the CSV files are never null, and the \<^verbatim>\<open>date\<close> column of the AQI file
    is already parsed: a reading carries the calendar year of its (day-first) date.
  \<^item> Strings are byte strings, compared as Python compares them (by code point);
    \<^verbatim>\<open>str.lower\<close>, \<^verbatim>\<open>str.strip\<close> and \<^verbatim>\<open>str.title\<close> are modelled on ASCII.
\<close>

datatype error = ValueError

section \<open>String helpers of pandas' \<^verbatim>\<open>.str\<close> accessor\<close>

definition is_upper :: "char \<Rightarrow> bool" where
  "is_upper c \<longleftrightarrow> 65 \<le> (of_char c :: nat) \<and> (of_char c :: nat) \<le> 90"

definition is_lower :: "char \<Rightarrow> bool" where
  "is_lower c \<longleftrightarrow> 97 \<le> (of_char c :: nat) \<and> (of_char c :: nat) \<le> 122"

definition lower_char :: "char \<Rightarrow> char" where
  "lower_char c = (if is_upper c then char_of ((of_char c :: nat) + 32) else c)"

definition upper_char :: "char \<Rightarrow> char" where
  "upper_char c = (if is_lower c then char_of ((of_char c :: nat) - 32) else c)"

definition str_lower :: "string \<Rightarrow> string" where
  "str_lower s = map lower_char s"

text \<open>The white space that \<^verbatim>\<open>str.strip()\<close> removes: tab, line feed, vertical tab, form
  feed, carriage return, the four separators 0x1c to 0x1f, and the space.\<close>

definition is_space :: "char \<Rightarrow> bool" where
  "is_space c \<longleftrightarrow> (let n = (of_char c :: nat) in (9 \<le> n \<and> n \<le> 13) \<or> (28 \<le> n \<and> n \<le> 32))"

definition str_strip :: "string \<Rightarrow> string" where
  "str_strip s = rev (dropWhile is_space (rev (dropWhile is_space s)))"

text \<open>\<^verbatim>\<open>.str.lower().str.strip()\<close>, the normalisation of a state or area name.\<close>

definition lower_strip :: "string \<Rightarrow> string" where
  "lower_strip s = str_strip (str_lower s)"

text \<open>\<^verbatim>\<open>str.title()\<close>: a letter is upper-cased when the character before it is not a
  letter, and lower-cased otherwise. The flag says whether the previous character was a
  letter.\<close>

fun title_from :: "bool \<Rightarrow> string \<Rightarrow> string" where
  "title_from prev [] = []"
| "title_from prev (c # cs) =
     (if is_upper c \<or> is_lower c
      then (if prev then lower_char c else upper_char c) # title_from True cs
      else c # title_from False cs)"

definition str_title :: "string \<Rightarrow> string" where
  "str_title s = title_from False s"

definition str_replace_underscore :: "string \<Rightarrow> string" where
  "str_replace_underscore s = map (\<lambda>c. if c = CHR ''_'' then CHR '' '' else c) s"

section \<open>Frame operations of pandas\<close>

text \<open>\<^verbatim>\<open>Series.mean()\<close> of a group; a group of \<^verbatim>\<open>groupby\<close> is never empty.\<close>

definition mean :: "real list \<Rightarrow> real" where
  "mean vs = sum_list vs / real (length vs)"

text \<open>The keys of \<^verbatim>\<open>groupby(..., as_index=False)\<close>: each key once, in sorted order
  (\<^verbatim>\<open>sort=True\<close> is the default).\<close>

definition group_keys :: "('a \<Rightarrow> 'k::linorder) \<Rightarrow> 'a list \<Rightarrow> 'k list" where
  "group_keys key df = sort (remdups (map key df))"

text \<open>\<^verbatim>\<open>Series.unique()\<close>: each value once, in order of first appearance.\<close>

definition unique :: "'a list \<Rightarrow> 'a list" where
  "unique xs = rev (remdups (rev xs))"

text \<open>\<^verbatim>\<open>left.merge(right, on=key, how="inner")\<close>: the rows of the left frame in their
  order, each paired with every matching row of the right frame.\<close>

definition merge_inner :: "('a \<Rightarrow> 'k) \<Rightarrow> ('b \<Rightarrow> 'k) \<Rightarrow> ('a \<Rightarrow> 'b \<Rightarrow> 'c) \<Rightarrow> 'a list \<Rightarrow> 'b list \<Rightarrow> 'c list" where
  "merge_inner kl kr row left right =
     concat (map (\<lambda>l. map (row l) (filter (\<lambda>r. kr r = kl l) right)) left)"

text \<open>\<^verbatim>\<open>how="left"\<close>: a left row without a match is kept once, with null cells.\<close>

definition merge_left :: "('a \<Rightarrow> 'k) \<Rightarrow> ('b \<Rightarrow> 'k) \<Rightarrow> ('a \<Rightarrow> 'b option \<Rightarrow> 'c) \<Rightarrow> 'a list \<Rightarrow> 'b list \<Rightarrow> 'c list" where
  "merge_left kl kr row left right =
     concat (map (\<lambda>l. case filter (\<lambda>r. kr r = kl l) right of
                          [] \<Rightarrow> [row l None]
                        | ms \<Rightarrow> map (\<lambda>r. row l (Some r)) ms) left)"

text \<open>\<^verbatim>\<open>how="cross"\<close>: every left row with every right row.\<close>

definition merge_cross :: "'a list \<Rightarrow> 'b list \<Rightarrow> ('a \<times> 'b) list" where
  "merge_cross left right = concat (map (\<lambda>l. map (\<lambda>r. (l, r)) right) left)"

text \<open>\<^verbatim>\<open>DataFrame.head(n)\<close>: the first \<open>n\<close> rows, and for a negative \<open>n\<close> all rows but
  the last \<open>-n\<close>.\<close>

definition df_head :: "int \<Rightarrow> 'a list \<Rightarrow> 'a list" where
  "df_head n df = (if 0 \<le> n then take (nat n) df else take (length df - nat (- n)) df)"

text \<open>\<^verbatim>\<open>groupby(key).head(n)\<close>: the rows stay in frame order; a row is kept when its
  position in its group is below \<open>n\<close>, and for a negative \<open>n\<close> when it is not among the
  last \<open>-n\<close> rows of its group. \<open>seen\<close> holds the rows before the current one.\<close>

fun groupby_head_from :: "('a \<Rightarrow> 'k) \<Rightarrow> int \<Rightarrow> 'a list \<Rightarrow> 'a list \<Rightarrow> 'a list" where
  "groupby_head_from key n seen [] = []"
| "groupby_head_from key n seen (x # xs) =
     (let cumcount = int (length (filter (\<lambda>y. key y = key x) seen));
          size = cumcount + 1 + int (length (filter (\<lambda>y. key y = key x) xs))
      in (if (if 0 \<le> n then cumcount < n else cumcount < size + n) then [x] else [])
         @ groupby_head_from key n (seen @ [x]) xs)"

definition groupby_head :: "('a \<Rightarrow> 'k) \<Rightarrow> int \<Rightarrow> 'a list \<Rightarrow> 'a list" where
  "groupby_head key n df = groupby_head_from key n [] df"

section \<open>The input tables\<close>

text \<open>aqi_clean.csv: one reading per row.\<close>

record aqi_reading =
  date_year :: int
  r_state :: string
  r_area :: string
  aqi_value :: real

text \<open>population_clean.csv; the \<^verbatim>\<open>month\<close> column is optional.\<close>

record pop_row =
  p_state :: string
  p_year :: int
  p_month :: string
  pop_total :: real

record pop_table =
  has_month :: bool
  pop_rows :: "pop_row list"

text \<open>mpce_clean.csv.\<close>

record mpce_row =
  State_UT :: string
  average_mpce_2023_2024_rural :: real
  percentage_increase_mpce_2023_24_from_2022_23_rural :: real
  average_mpce_2023_2024_urban :: real
  percentage_increase_mpce_2023_24_from_2022_23_urban :: real

text \<open>health_params_clean.csv.\<close>

record hp_row =
  outcome :: string
  rr_per_10ug :: real
  baseline_incidence :: real
  cost_min :: real
  cost_mean :: real
  cost_max :: real

section \<open>state_risk.py\<close>

subsection \<open>\<^verbatim>\<open>annual_state_aqi_calendar\<close>\<close>

record aqi_ann_row =
  state :: string
  year :: int
  avg_aqi :: real

text \<open>The state name is grouped as it stands in the file: this function does not
  normalise it.\<close>

definition annual_state_aqi_calendar :: "aqi_reading list \<Rightarrow> aqi_ann_row list" where
  "annual_state_aqi_calendar df_aqi =
     map (\<lambda>(s, y). \<lparr>state = s, year = y,
                     avg_aqi = mean (map aqi_value
                       (filter (\<lambda>r. r_state r = s \<and> date_year r = y) df_aqi))\<rparr>)
         (group_keys (\<lambda>r. (r_state r, date_year r)) df_aqi)"

subsection \<open>\<^verbatim>\<open>project_mpce_2425\<close>\<close>

definition proj_rural_2425 :: "mpce_row \<Rightarrow> real" where
  "proj_rural_2425 r =
     average_mpce_2023_2024_rural r
     * (1 + percentage_increase_mpce_2023_24_from_2022_23_rural r / 100)"

definition proj_urban_2425 :: "mpce_row \<Rightarrow> real" where
  "proj_urban_2425 r =
     average_mpce_2023_2024_urban r
     * (1 + percentage_increase_mpce_2023_24_from_2022_23_urban r / 100)"

text \<open>The result has the columns \<^verbatim>\<open>state\<close> and \<^verbatim>\<open>mpce_2024_25\<close>.\<close>

definition project_mpce_2425 :: "mpce_row list \<Rightarrow> (string \<times> real) list" where
  "project_mpce_2425 mpce_df =
     map (\<lambda>r. (lower_strip (State_UT r), mean [proj_rural_2425 r, proj_urban_2425 r])) mpce_df"

subsection \<open>\<^verbatim>\<open>get_population_by_year\<close>\<close>

definition month_map :: "string \<Rightarrow> nat option" where
  "month_map m =
     (if m = ''january'' then Some 1 else if m = ''february'' then Some 2
      else if m = ''march'' then Some 3 else if m = ''april'' then Some 4
      else if m = ''may'' then Some 5 else if m = ''june'' then Some 6
      else if m = ''july'' then Some 7 else if m = ''august'' then Some 8
      else if m = ''september'' then Some 9 else if m = ''october'' then Some 10
      else if m = ''november'' then Some 11 else if m = ''december'' then Some 12
      else None)"

definition month_num :: "pop_row \<Rightarrow> nat option" where
  "month_num r = month_map (str_lower (p_month r))"

text \<open>The rows of the latest month: \<^verbatim>\<open>max()\<close> skips the months that the map does not
  know, and a comparison with a missing maximum selects nothing.\<close>

definition latest_month :: "pop_row list \<Rightarrow> pop_row list" where
  "latest_month df_year =
     (case concat (map (\<lambda>r. case month_num r of None \<Rightarrow> [] | Some m \<Rightarrow> [m]) df_year) of
        [] \<Rightarrow> []
      | ms \<Rightarrow> filter (\<lambda>r. month_num r = Some (Max (set ms))) df_year)"

text \<open>The result has the columns \<^verbatim>\<open>state\<close> and \<^verbatim>\<open>population\<close>.\<close>

definition get_population_by_year :: "pop_table \<Rightarrow> int \<Rightarrow> (string \<times> real) list" where
  "get_population_by_year pop_df yr =
     (let df = map (\<lambda>r. r\<lparr>p_state := lower_strip (p_state r)\<rparr>) (pop_rows pop_df);
          df_year = filter (\<lambda>r. p_year r = yr) df;
          df_sel = (if has_month pop_df then latest_month df_year else df_year)
      in map (\<lambda>r. (p_state r, pop_total r)) df_sel)"

subsection \<open>\<^verbatim>\<open>extract_high_aqi_areas\<close>\<close>

record area_row =
  ar_state :: string
  ar_area :: string
  ar_avg_aqi :: real

text \<open>\<^verbatim>\<open>sort_values(["state", "avg_aqi"], ascending=[True, False])\<close>: with several
  keys pandas sorts lexicographically and keeps equal rows in frame order, which is a
  stable sort on the minor key followed by a stable sort on the major key.\<close>

definition sort_values_state_avg_aqi :: "area_row list \<Rightarrow> area_row list" where
  "sort_values_state_avg_aqi df = sort_key ar_state (sort_key (\<lambda>r. - ar_avg_aqi r) df)"

definition extract_high_aqi_areas :: "aqi_reading list \<Rightarrow> string list \<Rightarrow> int \<Rightarrow> int \<Rightarrow> area_row list" where
  "extract_high_aqi_areas aqi_df states yr top_n =
     (let df = map (\<lambda>r. r\<lparr>r_state := lower_strip (r_state r),
                            r_area := lower_strip (r_area r)\<rparr>) aqi_df;
          df = filter (\<lambda>r. date_year r = yr \<and> r_state r \<in> set states) df;
          avg_area = map (\<lambda>(s, a). \<lparr>ar_state = s, ar_area = a,
                           ar_avg_aqi = mean (map aqi_value
                             (filter (\<lambda>r. r_state r = s \<and> r_area r = a) df))\<rparr>)
                         (group_keys (\<lambda>r. (r_state r, r_area r)) df)
      in groupby_head ar_state top_n (sort_values_state_avg_aqi avg_area))"

subsection \<open>\<^verbatim>\<open>sklearn.preprocessing.MinMaxScaler\<close>\<close>

text \<open>
  \<^verbatim>\<open>MinMaxScaler().fit_transform(X)\<close> with the default feature range (0, 1) does, for
  each column,
  \<^verbatim>\<open>
    data_range = data_max - data_min
    scale_ = (1 - 0) / _handle_zeros_in_scale(data_range)
    min_   = 0 - data_min * scale_
    X *= scale_ ;  X += min_
  \<close>
  where \<^verbatim>\<open>_handle_zeros_in_scale\<close> replaces a range below ten machine epsilons by 1
  (\<^verbatim>\<open>scale[scale < 10 * np.finfo(scale.dtype).eps] = 1.0\<close>), so that a constant column
  is not divided by zero. The input validation of \<^verbatim>\<open>fit\<close> refuses a frame without rows
  with a \<^verbatim>\<open>ValueError\<close> (\<^verbatim>\<open>Found array with 0 sample(s) ... while a minimum of 1 is
  required by MinMaxScaler\<close>).

  \<open>rnd\<close> is the rounding of each array operation.
\<close>

definition eps_float64 :: real where
  "eps_float64 = 1 / 2 ^ 52"

definition handle_zeros_in_scale :: "real \<Rightarrow> real" where
  "handle_zeros_in_scale scale = (if scale < 10 * eps_float64 then 1 else scale)"

text \<open>\<^verbatim>\<open>fit\<close> on one column: the pair of \<^verbatim>\<open>scale_\<close> and \<^verbatim>\<open>min_\<close>.\<close>

definition MinMaxScaler_fit :: "(real \<Rightarrow> real) \<Rightarrow> real list \<Rightarrow> real \<times> real" where
  "MinMaxScaler_fit rnd X =
     (let data_min = Min (set X);
          data_max = Max (set X);
          data_range = rnd (data_max - data_min);
          scale = rnd (1 / handle_zeros_in_scale data_range)
      in (scale, rnd (0 - rnd (data_min * scale))))"

text \<open>\<^verbatim>\<open>transform\<close> on one cell: \<^verbatim>\<open>X *= scale_; X += min_\<close>.\<close>

definition MinMaxScaler_transform :: "(real \<Rightarrow> real) \<Rightarrow> real \<times> real \<Rightarrow> real \<Rightarrow> real" where
  "MinMaxScaler_transform rnd fitted x = rnd (rnd (x * fst fitted) + snd fitted)"

definition MinMaxScaler_column :: "(real \<Rightarrow> real) \<Rightarrow> real list \<Rightarrow> real list" where
  "MinMaxScaler_column rnd X = map (MinMaxScaler_transform rnd (MinMaxScaler_fit rnd X)) X"

subsection \<open>IEEE double precision\<close>

text \<open>Rounding to the nearest integer, a tie to the even one.\<close>

definition round_half_even :: "real \<Rightarrow> int" where
  "round_half_even x =
     (let n = \<lfloor>x\<rfloor>; d = x - of_int n
      in if d < 1 / 2 then n else if 1 / 2 < d then n + 1 else if even n then n else n + 1)"

text \<open>Rounding of a real number to the nearest double: 53 bits of significand, the
  exponent of the last bit not below \<open>-1074\<close>. The overflow to an infinity is left out:
  no number of the development is near \<open>2 ^ 1024\<close>.\<close>

definition binary64 :: "real \<Rightarrow> real" where
  "binary64 x =
     (if x = 0 then 0
      else (let e = max (\<lfloor>log 2 \<bar>x\<bar>\<rfloor> - 52) (- 1074)
            in of_int (round_half_even (x / 2 powr of_int e)) * 2 powr of_int e))"

subsection \<open>\<^verbatim>\<open>compute_state_risk\<close>\<close>

text \<open>The folder \<^verbatim>\<open>clean_data\<close>.\<close>

record clean_data =
  aqi_clean :: "aqi_reading list"
  population_clean :: pop_table
  mpce_clean :: "mpce_row list"
  health_params_clean :: "hp_row list"

record joined_row = aqi_ann_row +
  population :: real
  mpce_2024_25 :: real

record risk_row = joined_row +
  aqi_n :: real
  pop_n :: real
  mpce_n :: real
  risk_score :: real

text \<open>"merge all drivers": the annual AQI of the target year, inner-joined with the
  population and then with the projected expenditure, on the column \<^verbatim>\<open>state\<close>.\<close>

definition merge_drivers :: "clean_data \<Rightarrow> int \<Rightarrow> joined_row list" where
  "merge_drivers data target_year =
     (let aqi_ann = annual_state_aqi_calendar (aqi_clean data);
          aqi_target = filter (\<lambda>r. year r = target_year) aqi_ann;
          mpce_proj = project_mpce_2425 (mpce_clean data);
          pop_target = get_population_by_year (population_clean data) target_year
      in merge_inner (\<lambda>(a, p). state a) fst
           (\<lambda>(a, p) m. \<lparr>state = state a, year = year a, avg_aqi = avg_aqi a,
                         population = snd p, mpce_2024_25 = snd m\<rparr>)
           (merge_inner state fst Pair aqi_target pop_target) mpce_proj)"

definition weighted_risk :: "real \<Rightarrow> real \<Rightarrow> real \<Rightarrow> real" where
  "weighted_risk a p m = 0.7 * a + 0.2 * p + 0.1 * (1 - m)"

text \<open>The frame with the normalised columns and the risk score, before it is sorted.\<close>

definition score_states :: "(real \<Rightarrow> real) \<Rightarrow> joined_row list \<Rightarrow> error + risk_row list" where
  "score_states rnd df =
     (if df = [] then Inl ValueError
      else Inr (map (\<lambda>(r, a, p, m).
                  \<lparr>state = state r, year = year r, avg_aqi = avg_aqi r,
                   population = population r, mpce_2024_25 = mpce_2024_25 r,
                   aqi_n = a, pop_n = p, mpce_n = m, risk_score = weighted_risk a p m\<rparr>)
             (zip df (zip (MinMaxScaler_column rnd (map avg_aqi df))
                     (zip (MinMaxScaler_column rnd (map population df))
                          (MinMaxScaler_column rnd (map mpce_2024_25 df)))))))"

text \<open>The scaled columns are assigned by position; this is the row that the assignment
  gives for the joined row \<open>j\<close> of the frame \<open>df\<close>.\<close>

definition scored_row :: "(real \<Rightarrow> real) \<Rightarrow> joined_row list \<Rightarrow> joined_row \<Rightarrow> risk_row" where
  "scored_row rnd df j =
     (let a = MinMaxScaler_transform rnd (MinMaxScaler_fit rnd (map avg_aqi df)) (avg_aqi j);
          p = MinMaxScaler_transform rnd (MinMaxScaler_fit rnd (map population df)) (population j);
          m = MinMaxScaler_transform rnd (MinMaxScaler_fit rnd (map mpce_2024_25 df))
                (mpce_2024_25 j)
      in \<lparr>state = state j, year = year j, avg_aqi = avg_aqi j, population = population j,
          mpce_2024_25 = mpce_2024_25 j, aqi_n = a, pop_n = p, mpce_n = m,
          risk_score = weighted_risk a p m\<rparr>)"


text \<open>
  \<^verbatim>\<open>df.sort_values("risk_score", ascending=False)\<close>. For a single column pandas sorts
  with \<^verbatim>\<open>kind="quicksort"\<close> unless told otherwise, and documents that only mergesort
  and stable are stable: the order of rows of equal score is whatever numpy's quicksort
  leaves. The model is therefore a relation between the frame and each result that the
  call may give: the same rows, in descending order of the score.
\<close>

definition sort_values_risk_score :: "risk_row list \<Rightarrow> risk_row list \<Rightarrow> bool" where
  "sort_values_risk_score df risk_df \<longleftrightarrow>
     mset risk_df = mset df \<and> sorted_wrt (\<lambda>a b. risk_score b \<le> risk_score a) risk_df"

text \<open>The pipeline: it raises, or returns the three frames \<^verbatim>\<open>risk_df\<close>, \<^verbatim>\<open>areas_df\<close>
  and \<^verbatim>\<open>global_areas_df\<close>. \<open>compute_state_risk ... res\<close> says that \<open>res\<close> is an outcome
  of the call.\<close>

definition compute_state_risk ::
  "(real \<Rightarrow> real) \<Rightarrow> clean_data \<Rightarrow> int \<Rightarrow> int \<Rightarrow> int \<Rightarrow> int
   \<Rightarrow> error + risk_row list \<times> area_row list \<times> area_row list \<Rightarrow> bool" where
  "compute_state_risk rnd data target_year top_states top_areas_per_state top_global_areas res \<longleftrightarrow>
     (case (score_states rnd (merge_drivers data target_year), res) of
        (Inl e, Inl e') \<Rightarrow> e' = e
      | (Inr df, Inr (risk_df, areas_df, global_areas_df)) \<Rightarrow>
          sort_values_risk_score df risk_df
          \<and> areas_df = extract_high_aqi_areas (aqi_clean data)
                (map state (df_head top_states risk_df)) target_year top_areas_per_state
          \<and> global_areas_df = extract_high_aqi_areas (aqi_clean data)
                (unique (map (\<lambda>r. lower_strip (r_state r)) (aqi_clean data)))
                target_year top_global_areas
      | _ \<Rightarrow> False)"

section \<open>health_cost_proj.py\<close>

text \<open>
  \<^verbatim>\<open>rr_per_10ug ** (delta_aqi / 10)\<close> on float64 columns is C's \<^verbatim>\<open>pow\<close>: anything to the
  power 0 is 1; a positive base gives the real power; the base 0 gives 0 for a positive
  exponent and an infinity for a negative one; a negative base gives a number for an
  integral exponent and NaN otherwise.
\<close>

definition np_power :: "real \<Rightarrow> real \<Rightarrow> real option" where
  "np_power x y =
     (if y = 0 then Some 1
      else if 0 < x then Some (x powr y)
      else if x = 0 then (if 0 < y then Some 0 else None)
      else if of_int \<lfloor>y\<rfloor> = y then Some (power_int x \<lfloor>y\<rfloor>)
      else None)"

text \<open>\<^verbatim>\<open>(rr_total - 1) / rr_total\<close>: the division by zero gives an infinity.\<close>

definition paf_of :: "real \<Rightarrow> real option" where
  "paf_of t = (if t = 0 then None else Some ((t - 1) / t))"

record aqi_delta_row =
  d_state :: string
  d_year :: int
  d_avg_aqi :: real
  d_delta_aqi :: real

record cost_row = hp_row +
  hc_state :: string
  hc_avg_aqi :: "real option"
  delta_aqi :: "real option"
  hc_population :: "real option"
  rr_total :: "real option"
  paf :: "real option"
  attr_rate :: "real option"
  attr_cases :: "real option"
  cost_mean_total :: "real option"
  cost_min_total :: "real option"
  cost_max_total :: "real option"
  cost_mean_person :: real
  cost_min_person :: real
  cost_max_person :: real

text \<open>The columns computed on one row of the grid, after the two left joins, and the
  "tidy casing" of the state and of the outcome.\<close>

definition impact_row :: "string \<times> hp_row \<times> real option \<times> real option \<times> real option \<Rightarrow> cost_row" where
  "impact_row = (\<lambda>(s, h, avg, delta, pop).
     (let rr_total' = Option.bind delta (\<lambda>d. np_power (rr_per_10ug h) (d / 10));
          paf' = Option.bind rr_total' paf_of;
          attr_rate' = map_option (\<lambda>p. p * baseline_incidence h) paf';
          attr_cases' = Option.bind attr_rate' (\<lambda>a. map_option (\<lambda>p. a * p / 100000) pop)
      in \<lparr>outcome = str_title (str_replace_underscore (outcome h)),
          rr_per_10ug = rr_per_10ug h, baseline_incidence = baseline_incidence h,
          cost_min = cost_min h, cost_mean = cost_mean h, cost_max = cost_max h,
          hc_state = str_title s, hc_avg_aqi = avg, delta_aqi = delta, hc_population = pop,
          rr_total = rr_total', paf = paf', attr_rate = attr_rate', attr_cases = attr_cases',
          cost_mean_total = map_option (\<lambda>c. c * cost_mean h) attr_cases',
          cost_min_total = map_option (\<lambda>c. c * cost_min h) attr_cases',
          cost_max_total = map_option (\<lambda>c. c * cost_max h) attr_cases',
          cost_mean_person = cost_mean h, cost_min_person = cost_min h,
          cost_max_person = cost_max h\<rparr>))"

text \<open>"filter population to target year" and the latest month: the frame \<^verbatim>\<open>pop_year\<close>
  with the columns \<^verbatim>\<open>state\<close> and \<^verbatim>\<open>population\<close>.\<close>

definition pop_year_of :: "pop_table \<Rightarrow> int \<Rightarrow> (string \<times> real) list" where
  "pop_year_of pop_df target_year =
     (let rows = map (\<lambda>r. r\<lparr>p_state := lower_strip (p_state r)\<rparr>) (pop_rows pop_df);
          pop_year = filter (\<lambda>r. p_year r = target_year) rows;
          pop_year = (if has_month pop_df then latest_month pop_year else pop_year)
      in map (\<lambda>r. (p_state r, pop_total r)) pop_year)"

text \<open>"annual AQI per state", on the normalised state name, with \<^verbatim>\<open>delta_aqi\<close>.\<close>

definition aqi_ann_delta :: "aqi_reading list \<Rightarrow> real \<Rightarrow> aqi_delta_row list" where
  "aqi_ann_delta aqi_clean_csv cf_aqi =
     (let aqi_df = map (\<lambda>r. r\<lparr>r_state := lower_strip (r_state r)\<rparr>) aqi_clean_csv
      in map (\<lambda>(s, y).
                (let a = mean (map aqi_value
                           (filter (\<lambda>r. r_state r = s \<and> date_year r = y) aqi_df))
                 in \<lparr>d_state = s, d_year = y, d_avg_aqi = a, d_delta_aqi = a - cf_aqi\<rparr>))
             (group_keys (\<lambda>r. (r_state r, date_year r)) aqi_df))"

text \<open>The grid of states and outcomes with the AQI and the population joined to it.\<close>

definition combo_of ::
  "int \<Rightarrow> real \<Rightarrow> clean_data \<Rightarrow> (string \<times> hp_row \<times> real option \<times> real option \<times> real option) list" where
  "combo_of target_year cf_aqi data_dir =
     (let hp_df = health_params_clean data_dir;
          pop_year = pop_year_of (population_clean data_dir) target_year;
          aqi_ann = aqi_ann_delta (aqi_clean data_dir) cf_aqi;
          aqi_target = filter (\<lambda>r. d_year r = target_year) aqi_ann;
          states = unique (map d_state aqi_target);
          combo = merge_cross states hp_df;
          combo = merge_left fst d_state
                    (\<lambda>(s, h) a. (s, h, map_option d_avg_aqi a, map_option d_delta_aqi a))
                    combo aqi_target
      in merge_left fst fst
           (\<lambda>(s, h, avg, delta) p. (s, h, avg, delta, map_option snd p))
           combo pop_year)"

definition compute_health_cost_impacts :: "int \<Rightarrow> real \<Rightarrow> clean_data \<Rightarrow> cost_row list" where
  "compute_health_cost_impacts target_year cf_aqi data_dir =
     map impact_row (combo_of target_year cf_aqi data_dir)"

section \<open>A worked example\<close>

text \<open>Three states with readings, population and expenditure for 2025; the inputs of
  the closed instances below.\<close>

definition example_aqi :: "aqi_reading list" where
  "example_aqi =
     [\<lparr>date_year = 2025, r_state = ''delhi'', r_area = ''Anand Vihar'', aqi_value = 300\<rparr>,
      \<lparr>date_year = 2025, r_state = ''delhi'', r_area = ''Dwarka'', aqi_value = 200\<rparr>,
      \<lparr>date_year = 2025, r_state = ''goa'', r_area = ''Panaji'', aqi_value = 50\<rparr>,
      \<lparr>date_year = 2024, r_state = ''goa'', r_area = ''Panaji'', aqi_value = 70\<rparr>,
      \<lparr>date_year = 2025, r_state = ''kerala'', r_area = ''Kochi'', aqi_value = 100\<rparr>]"

definition example_population :: pop_table where
  "example_population = \<lparr>has_month = True, pop_rows =
     [\<lparr>p_state = ''Delhi'', p_year = 2025, p_month = ''June'', pop_total = 20000\<rparr>,
      \<lparr>p_state = ''Delhi'', p_year = 2025, p_month = ''May'', pop_total = 19000\<rparr>,
      \<lparr>p_state = ''Goa'', p_year = 2025, p_month = ''June'', pop_total = 2000\<rparr>,
      \<lparr>p_state = ''Kerala'', p_year = 2025, p_month = ''June'', pop_total = 11000\<rparr>,
      \<lparr>p_state = ''Goa'', p_year = 2024, p_month = ''December'', pop_total = 1900\<rparr>]\<rparr>"

definition example_mpce :: "mpce_row list" where
  "example_mpce =
     [\<lparr>State_UT = '' Delhi'', average_mpce_2023_2024_rural = 6000,
       percentage_increase_mpce_2023_24_from_2022_23_rural = 10,
       average_mpce_2023_2024_urban = 8000,
       percentage_increase_mpce_2023_24_from_2022_23_urban = 5\<rparr>,
      \<lparr>State_UT = ''Goa'', average_mpce_2023_2024_rural = 7000,
       percentage_increase_mpce_2023_24_from_2022_23_rural = 10,
       average_mpce_2023_2024_urban = 9000,
       percentage_increase_mpce_2023_24_from_2022_23_urban = 10\<rparr>,
      \<lparr>State_UT = ''Kerala'', average_mpce_2023_2024_rural = 5000,
       percentage_increase_mpce_2023_24_from_2022_23_rural = 20,
       average_mpce_2023_2024_urban = 7000,
       percentage_increase_mpce_2023_24_from_2022_23_urban = 0\<rparr>]"

definition example_hp :: "hp_row list" where
  "example_hp =
     [\<lparr>outcome = ''copd'', rr_per_10ug = 2, baseline_incidence = 100,
       cost_min = 1000, cost_mean = 2000, cost_max = 3000\<rparr>,
      \<lparr>outcome = ''lung_cancer'', rr_per_10ug = 3 / 2, baseline_incidence = 50,
       cost_min = 5000, cost_mean = 6000, cost_max = 7000\<rparr>]"

definition example_data :: clean_data where
  "example_data = \<lparr>aqi_clean = example_aqi, population_clean = example_population,
     mpce_clean = example_mpce, health_params_clean = example_hp\<rparr>"
















text \<open>One state, written \<^verbatim>\<open>Delhi\<close> in all three files.\<close>

definition capitalised_data :: clean_data where
  "capitalised_data =
     \<lparr>aqi_clean =
        [\<lparr>date_year = 2025, r_state = ''Delhi'', r_area = ''Dwarka'', aqi_value = 100\<rparr>],
      population_clean = \<lparr>has_month = True, pop_rows =
        [\<lparr>p_state = ''Delhi'', p_year = 2025, p_month = ''June'', pop_total = 20000\<rparr>]\<rparr>,
      mpce_clean =
        [\<lparr>State_UT = ''Delhi'', average_mpce_2023_2024_rural = 6000,
          percentage_increase_mpce_2023_24_from_2022_23_rural = 10,
          average_mpce_2023_2024_urban = 8000,
          percentage_increase_mpce_2023_24_from_2022_23_urban = 5\<rparr>],
      health_params_clean = []\<rparr>"


definition duplicate_population_data :: clean_data where
  "duplicate_population_data =
     \<lparr>aqi_clean =
        [\<lparr>date_year = 2024, r_state = ''Goa'', r_area = ''Panaji'', aqi_value = 55\<rparr>],
      population_clean = \<lparr>has_month = False, pop_rows =
        [\<lparr>p_state = ''Goa'', p_year = 2024, p_month = [], pop_total = 1500\<rparr>,
         \<lparr>p_state = ''GOA'', p_year = 2024, p_month = [], pop_total = 1600\<rparr>]\<rparr>,
      mpce_clean = [],
      health_params_clean =
        [\<lparr>outcome = ''copd'', rr_per_10ug = 2, baseline_incidence = 100,
          cost_min = 1000, cost_mean = 2000, cost_max = 3000\<rparr>]\<rparr>"



section \<open>Properties of the risk pipeline\<close>






lemma zip_columns:
  "zip xs (zip (map f xs) (zip (map g xs) (map h xs))) = map (\<lambda>x. (x, f x, g x, h x)) xs"
  by (induction xs) simp_all

lemma score_states_eq:
  "score_states rnd df = (if df = [] then Inl ValueError else Inr (map (scored_row rnd df) df))"
  by (simp add: score_states_def MinMaxScaler_column_def zip_columns scored_row_def Let_def comp_def)











lemma scored_row_fields [simp]:
  "state (scored_row rnd df j) = state j"
  "year (scored_row rnd df j) = year j"
  "avg_aqi (scored_row rnd df j) = avg_aqi j"
  "population (scored_row rnd df j) = population j"
  "mpce_2024_25 (scored_row rnd df j) = mpce_2024_25 j"
  "aqi_n (scored_row rnd df j) =
     MinMaxScaler_transform rnd (MinMaxScaler_fit rnd (map avg_aqi df)) (avg_aqi j)"
  "pop_n (scored_row rnd df j) =
     MinMaxScaler_transform rnd (MinMaxScaler_fit rnd (map population df)) (population j)"
  "mpce_n (scored_row rnd df j) =
     MinMaxScaler_transform rnd (MinMaxScaler_fit rnd (map mpce_2024_25 df)) (mpce_2024_25 j)"
  by (simp_all add: scored_row_def Let_def)




subsection \<open>Rounding to double precision\<close>










subsection \<open>The claims on the risk pipeline\<close>







text \<open>The scaler in double precision on the column \<open>[51, 100]\<close>.\<close>

lemma binary64_0 [simp]: "binary64 0 = 0"
  by (simp add: binary64_def)

























subsection \<open>Area extraction\<close>









subsection \<open>The join of the three drivers\<close>

text \<open>
  Claim C3. The claim is that the three inputs are joined on the normalised state name,
  that a state is in the risk table exactly when it has all three inputs, and that an
  empty join gives an empty risk table. The code evaluated on two inputs:
  \<^item> \<open>capitalised_data\<close> has the state \<^verbatim>\<open>Delhi\<close> in all three files. The population and
    the expenditure are keyed by \<^verbatim>\<open>delhi\<close>, but \<^verbatim>\<open>annual_state_aqi_calendar\<close> leaves the
    name of the AQI file as it is, so the join is empty;
  \<^item> \<open>example_data\<close> has no state with all three inputs for 2023.
  In both cases the scaler refuses the empty frame and the pipeline raises
  \<^verbatim>\<open>ValueError\<close>; it has no other outcome.
\<close>

theorem empty_join_raises:
  "annual_state_aqi_calendar (aqi_clean capitalised_data) =
     [\<lparr>state = ''Delhi'', year = 2025, avg_aqi = 100\<rparr>]
   \<and> get_population_by_year (population_clean capitalised_data) 2025 = [(''delhi'', 20000)]
   \<and> project_mpce_2425 (mpce_clean capitalised_data) = [(''delhi'', 7500)]
   \<and> merge_drivers capitalised_data 2025 = []
   \<and> compute_state_risk id capitalised_data 2025 2 1 3 (Inl ValueError)
   \<and> \<not> compute_state_risk id capitalised_data 2025 2 1 3 (Inr ([], [], []))
   \<and> merge_drivers example_data 2023 = []
   \<and> compute_state_risk id example_data 2023 2 1 3 (Inl ValueError)
   \<and> \<not> compute_state_risk id example_data 2023 2 1 3 (Inr ([], [], []))"
proof -
  have a: "annual_state_aqi_calendar (aqi_clean capitalised_data) =
     [\<lparr>state = ''Delhi'', year = 2025, avg_aqi = 100\<rparr>]"
    by code_simp
  have p: "get_population_by_year (population_clean capitalised_data) 2025 = [(''delhi'', 20000)]"
    by code_simp
  have m: "project_mpce_2425 (mpce_clean capitalised_data) = [(''delhi'', 7500)]"
    by code_simp
  have j: "merge_drivers capitalised_data 2025 = []" "merge_drivers example_data 2023 = []"
    by code_simp+
  show ?thesis
    using a p m j by (simp add: compute_state_risk_def score_states_eq)
qed

section \<open>Properties of the health-cost projection\<close>


lemma length_merge_cross: "length (merge_cross left right) = length left * length right"
  by (induction left) (simp_all add: merge_cross_def)


lemma length_merge_left:
  "length (merge_left kl kr row left right) =
     sum_list (map (\<lambda>l. max 1 (length (filter (\<lambda>r. kr r = kl l) right))) left)"
proof (induction left)
  case Nil
  then show ?case by (simp add: merge_left_def)
next
  case (Cons l left)
  then show ?case
    by (cases "filter (\<lambda>r. kr r = kl l) right") (simp_all add: merge_left_def)
qed

lemma filter_key_distinct:
  assumes "distinct (map kr right)"
  shows "length (filter (\<lambda>r. kr r = k) right) \<le> 1"
  using assms
proof (induction right)
  case Nil
  then show ?case by simp
next
  case (Cons a right)
  show ?case
  proof (cases "kr a = k")
    case True
    from Cons.prems True have "k \<notin> kr ` set right" by simp
    then have "\<forall>r \<in> set right. kr r \<noteq> k" by (metis imageI)
    then have "filter (\<lambda>r. kr r = k) right = []"
      by (simp add: filter_empty_conv)
    with True show ?thesis by simp
  next
    case False
    with Cons show ?thesis by simp
  qed
qed

text \<open>The annual AQI rows of the target year: one per state.\<close>

lemma aqi_ann_delta_target:
  "filter (\<lambda>r. d_year r = ty) (aqi_ann_delta aqi cf) =
     map (\<lambda>(s, y).
            (let a = mean (map aqi_value (filter (\<lambda>r. r_state r = s \<and> date_year r = y)
                       (map (\<lambda>r. r\<lparr>r_state := lower_strip (r_state r)\<rparr>) aqi)))
             in \<lparr>d_state = s, d_year = y, d_avg_aqi = a, d_delta_aqi = a - cf\<rparr>))
         (filter (\<lambda>k. snd k = ty)
            (group_keys (\<lambda>r. (r_state r, date_year r))
               (map (\<lambda>r. r\<lparr>r_state := lower_strip (r_state r)\<rparr>) aqi)))"
  by (simp add: aqi_ann_delta_def Let_def filter_map comp_def split_def)

lemma aqi_target_states:
  "map d_state (filter (\<lambda>r. d_year r = ty) (aqi_ann_delta aqi cf)) =
     map fst (filter (\<lambda>k. snd k = ty)
            (group_keys (\<lambda>r. (r_state r, date_year r))
               (map (\<lambda>r. r\<lparr>r_state := lower_strip (r_state r)\<rparr>) aqi)))"
  by (simp add: aqi_ann_delta_target comp_def split_def Let_def)

lemma distinct_fst_filter_snd:
  assumes "distinct ks"
  shows "distinct (map fst (filter (\<lambda>k. snd k = y) ks))"
proof -
  have "inj_on fst (set (filter (\<lambda>k. snd k = y) ks))"
    by (auto simp: inj_on_def prod_eq_iff)
  with assms show ?thesis
    by (simp add: distinct_map)
qed

lemma aqi_target_distinct:
  "distinct (map d_state (filter (\<lambda>r. d_year r = ty) (aqi_ann_delta aqi cf)))"
  unfolding aqi_target_states
  by (intro distinct_fst_filter_snd) (simp add: group_keys_def)

lemma aqi_target_set:
  "set (map d_state (filter (\<lambda>r. d_year r = ty) (aqi_ann_delta aqi cf))) =
     set (map (\<lambda>r. lower_strip (r_state r)) (filter (\<lambda>r. date_year r = ty) aqi))"
  unfolding aqi_target_states
  by (force simp: group_keys_def)


lemma unique_distinct: "distinct xs \<Longrightarrow> unique xs = xs"
  by (simp add: unique_def distinct_remdups_id)


lemma merge_left_distinct:
  assumes "distinct (map kr right)"
  shows "merge_left kl kr row left right =
           map (\<lambda>l. row l (case filter (\<lambda>r. kr r = kl l) right of
                              [] \<Rightarrow> None | r # _ \<Rightarrow> Some r)) left"
proof (induction left)
  case Nil
  then show ?case by (simp add: merge_left_def)
next
  case (Cons l left)
  have "length (filter (\<lambda>r. kr r = kl l) right) \<le> 1"
    using assms by (rule filter_key_distinct)
  then have "(case filter (\<lambda>r. kr r = kl l) right of
                 [] \<Rightarrow> [row l None] | ms \<Rightarrow> map (\<lambda>r. row l (Some r)) ms)
             = [row l (case filter (\<lambda>r. kr r = kl l) right of
                              [] \<Rightarrow> None | r # _ \<Rightarrow> Some r)]"
    by (cases "filter (\<lambda>r. kr r = kl l) right") auto
  with Cons show ?case
    by (simp add: merge_left_def)
qed




lemma sorted_map_fst:
  fixes ks :: "('a::linorder \<times> 'b::linorder) list"
  assumes "sorted ks"
  shows "sorted (map fst ks)"
proof -
  have "sorted_wrt (\<lambda>a b. fst a \<le> fst b) ks"
    using assms by (rule sorted_wrt_mono_rel [rotated]) (auto simp: less_eq_prod_def)
  then show ?thesis by (simp add: sorted_map)
qed

lemma aqi_target_states_sorted:
  "map d_state (filter (\<lambda>r. d_year r = ty) (aqi_ann_delta aqi cf)) =
     sort (remdups (map (\<lambda>r. lower_strip (r_state r)) (filter (\<lambda>r. date_year r = ty) aqi)))"
proof (rule sorted_distinct_set_unique)
  have "sorted (filter (\<lambda>k. snd k = ty)
            (group_keys (\<lambda>r. (r_state r, date_year r))
               (map (\<lambda>r. r\<lparr>r_state := lower_strip (r_state r)\<rparr>) aqi)))"
    by (intro sorted_wrt_filter) (simp add: group_keys_def)
  then show "sorted (map d_state (filter (\<lambda>r. d_year r = ty) (aqi_ann_delta aqi cf)))"
    unfolding aqi_target_states by (rule sorted_map_fst)
  show "distinct (map d_state (filter (\<lambda>r. d_year r = ty) (aqi_ann_delta aqi cf)))"
    by (rule aqi_target_distinct)
  show "set (map d_state (filter (\<lambda>r. d_year r = ty) (aqi_ann_delta aqi cf))) =
        set (sort (remdups (map (\<lambda>r. lower_strip (r_state r))
               (filter (\<lambda>r. date_year r = ty) aqi))))"
    unfolding aqi_target_set by simp
qed simp_all

lemma combo_of_grid:
  assumes "distinct (map fst (pop_year_of (population_clean data) ty))"
  shows "map (\<lambda>(s, h, avg, delta, pop). (s, h)) (combo_of ty cf data) =
           merge_cross
             (sort (remdups (map (\<lambda>r. lower_strip (r_state r))
                (filter (\<lambda>r. date_year r = ty) (aqi_clean data)))))
             (health_params_clean data)"
proof -
  define aqi_target where
    "aqi_target = filter (\<lambda>r. d_year r = ty) (aqi_ann_delta (aqi_clean data) cf)"
  have dst: "distinct (map d_state aqi_target)"
    unfolding aqi_target_def by (rule aqi_target_distinct)
  have states: "unique (map d_state aqi_target) =
      sort (remdups (map (\<lambda>r. lower_strip (r_state r))
                (filter (\<lambda>r. date_year r = ty) (aqi_clean data))))"
    using unique_distinct [OF dst] unfolding aqi_target_def aqi_target_states_sorted .
  have "combo_of ty cf data =
          merge_left fst fst (\<lambda>(s, h, avg, delta) p. (s, h, avg, delta, map_option snd p))
            (merge_left fst d_state
               (\<lambda>(s, h) a. (s, h, map_option d_avg_aqi a, map_option d_delta_aqi a))
               (merge_cross (unique (map d_state aqi_target)) (health_params_clean data))
               aqi_target)
            (pop_year_of (population_clean data) ty)"
    by (simp add: combo_of_def Let_def aqi_target_def)
  then show ?thesis
    unfolding merge_left_distinct [OF assms] merge_left_distinct [OF dst] states
    by (simp add: comp_def split_def)
qed

subsection \<open>The claims on the health-cost projection\<close>








text \<open>
  Claim C5 (as amended). When the population rows selected for the target year hold each
  normalised state name at most once, the health-cost projection has exactly (number of
  distinct normalised states with an AQI reading in the target year) times (number of
  rows of the health-parameters table) rows, one per pair of a state and an outcome row:
  the states in ascending order, each with the outcome rows in table order. (A state
  with \<open>k > 1\<close> selected population rows has each of its rows \<open>k\<close> times, as the
  instance on \<open>duplicate_population_data\<close> shows.)
\<close>

theorem cost_grid_size:
  assumes "distinct (map fst (pop_year_of (population_clean data_dir) target_year))"
  shows "length (compute_health_cost_impacts target_year cf_aqi data_dir) =
           length (remdups (map (\<lambda>r. lower_strip (r_state r))
              (filter (\<lambda>r. date_year r = target_year) (aqi_clean data_dir))))
           * length (health_params_clean data_dir)
         \<and> map (\<lambda>r. (hc_state r, outcome r))
               (compute_health_cost_impacts target_year cf_aqi data_dir) =
             map (\<lambda>(s, h). (str_title s, str_title (str_replace_underscore (outcome h))))
               (merge_cross
                  (sort (remdups (map (\<lambda>r. lower_strip (r_state r))
                     (filter (\<lambda>r. date_year r = target_year) (aqi_clean data_dir)))))
                  (health_params_clean data_dir))"
proof -
  note grid = combo_of_grid [OF assms, of cf_aqi]
  have "length (combo_of target_year cf_aqi data_dir) =
          length (map (\<lambda>(s, h, avg, delta, pop). (s, h)) (combo_of target_year cf_aqi data_dir))"
    by simp
  also have "\<dots> = length (remdups (map (\<lambda>r. lower_strip (r_state r))
              (filter (\<lambda>r. date_year r = target_year) (aqi_clean data_dir))))
           * length (health_params_clean data_dir)"
    unfolding grid by (simp add: length_merge_cross)
  finally have len: "length (compute_health_cost_impacts target_year cf_aqi data_dir) =
           length (remdups (map (\<lambda>r. lower_strip (r_state r))
              (filter (\<lambda>r. date_year r = target_year) (aqi_clean data_dir))))
           * length (health_params_clean data_dir)"
    by (simp add: compute_health_cost_impacts_def)
  have "map (\<lambda>r. (hc_state r, outcome r))
               (compute_health_cost_impacts target_year cf_aqi data_dir) =
        map (\<lambda>(s, h). (str_title s, str_title (str_replace_underscore (outcome h))))
          (map (\<lambda>(s, h, avg, delta, pop). (s, h)) (combo_of target_year cf_aqi data_dir))"
    by (simp add: compute_health_cost_impacts_def impact_row_def Let_def split_def comp_def)
  with len show ?thesis
    unfolding grid by simp
qed

theorem cost_grid_size_witness:
  "distinct (map fst (pop_year_of (population_clean example_data) 2025))
   \<and> remdups (map (\<lambda>r. lower_strip (r_state r))
        (filter (\<lambda>r. date_year r = 2025) (aqi_clean example_data))) =
       [''delhi'', ''goa'', ''kerala'']
   \<and> length (health_params_clean example_data) = 2
   \<and> length (compute_health_cost_impacts 2025 50 example_data) = 3 * 2
   \<and> map (\<lambda>r. (hc_state r, outcome r)) (compute_health_cost_impacts 2025 50 example_data) =
       [(''Delhi'', ''Copd''), (''Delhi'', ''Lung Cancer''), (''Goa'', ''Copd''),
        (''Goa'', ''Lung Cancer''), (''Kerala'', ''Copd''), (''Kerala'', ''Lung Cancer'')]"
proof -
  have pop: "pop_year_of (population_clean example_data) 2025 =
      [(''delhi'', 20000), (''goa'', 2000), (''kerala'', 11000)]"
    by code_simp
  have d: "distinct (map fst (pop_year_of (population_clean example_data) 2025))"
    unfolding pop by simp
  have states: "remdups (map (\<lambda>r. lower_strip (r_state r))
        (filter (\<lambda>r. date_year r = 2025) (aqi_clean example_data))) =
       [''delhi'', ''goa'', ''kerala'']"
    by code_simp
  have hp: "length (health_params_clean example_data) = 2"
    by (simp add: example_data_def example_hp_def)
  have pairs: "map (\<lambda>(s, h). (str_title s, str_title (str_replace_underscore (outcome h))))
      (merge_cross (sort [''delhi'', ''goa'', ''kerala'']) (health_params_clean example_data)) =
       [(''Delhi'', ''Copd''), (''Delhi'', ''Lung Cancer''), (''Goa'', ''Copd''),
        (''Goa'', ''Lung Cancer''), (''Kerala'', ''Copd''), (''Kerala'', ''Lung Cancer'')]"
    by code_simp
  show ?thesis
    using cost_grid_size [OF d, of 50] d
    unfolding states hp pairs by simp
qed

theorem cost_grid_size_counterexample:
  "pop_year_of (population_clean duplicate_population_data) 2024 =
     [(''goa'', 1500), (''goa'', 1600)]
   \<and> remdups (map (\<lambda>r. lower_strip (r_state r))
        (filter (\<lambda>r. date_year r = 2024) (aqi_clean duplicate_population_data))) = [''goa'']
   \<and> length (health_params_clean duplicate_population_data) = 1
   \<and> length (compute_health_cost_impacts 2024 35 duplicate_population_data) = 2"
proof -
  have "pop_year_of (population_clean duplicate_population_data) 2024 =
     [(''goa'', 1500), (''goa'', 1600)]"
    by code_simp
  moreover have "remdups (map (\<lambda>r. lower_strip (r_state r))
        (filter (\<lambda>r. date_year r = 2024) (aqi_clean duplicate_population_data))) = [''goa'']"
    by code_simp
  moreover have "length (health_params_clean duplicate_population_data) = 1"
    by (simp add: duplicate_population_data_def)
  moreover have "length (compute_health_cost_impacts 2024 35 duplicate_population_data) = 2"
    by code_simp
  ultimately show ?thesis by simp
qed



end
